theory Spec2Isabelle
  imports Complex_Main "HOL-Library.AList"
begin

section \<open>JavaScript numbers\<close>

text \<open>
  The retry options, the value of a \<open>retry-after\<close> header and the concurrency cap are
  JavaScript numbers, that is binary64 values. A finite one is given by the rational it
  denotes; the other values are \<open>NaN\<close> (the result of \<open>Number\<close> on a string that is not
  a numeric literal) and the two infinities. The product and the difference round to the
  nearest binary64 value, ties to the even one, and overflow to an infinity, as the
  operators of the language do. The sign of zero is not modelled.
\<close>

datatype jsnum = JNaN | JNegInf | JNum rat | JPosInf

text \<open>The number of binary digits of a positive integer.\<close>

function bit_length :: "int \<Rightarrow> nat" where
  "bit_length n = (if n \<le> 0 then 0 else Suc (bit_length (n div 2)))"
  by pat_completeness auto
termination
  by (relation "measure nat") auto

declare bit_length.simps [simp del]

definition pow2 :: "int \<Rightarrow> rat" where
  "pow2 e = (if 0 \<le> e then 2 ^ nat e else inverse (2 ^ nat (- e)))"

text \<open>
  For a positive rational \<open>a\<close>, the integer \<open>e\<close> with \<open>2 ^ e \<le> a < 2 ^ (e + 1)\<close>: the
  difference of the lengths of numerator and denominator, or one less.
\<close>

definition ilog2 :: "rat \<Rightarrow> int" where
  "ilog2 a =
     (let e = int (bit_length (fst (quotient_of a))) - int (bit_length (snd (quotient_of a)))
      in if pow2 e \<le> a then e else e - 1)"

text \<open>The nearest integer, the even one of two that are equally near.\<close>

definition round_half_even :: "rat \<Rightarrow> int" where
  "round_half_even x =
     (let f = \<lfloor>x\<rfloor>; d = x - of_int f
      in if d < 1 / 2 then f else if 1 / 2 < d then f + 1 else if even f then f else f + 1)"

text \<open>
  The binary64 value of a real result: the nearest multiple of the unit in the last place,
  which is \<open>2 ^ (e - 52)\<close> for a number of exponent \<open>e\<close> and \<open>2 ^ - 1074\<close> for a
  subnormal one; a result that reaches \<open>2 ^ 1024\<close> is infinite.
\<close>

definition round64 :: "rat \<Rightarrow> jsnum" where
  "round64 r =
     (if r = 0 then JNum 0
      else let a = \<bar>r\<bar>;
               q = max (ilog2 a - 52) (- 1074);
               v = of_int (round_half_even (a / pow2 q)) * pow2 q
           in if pow2 1024 \<le> v then (if 0 < r then JPosInf else JNegInf)
              else JNum (if 0 < r then v else - v))"

text \<open>A rational that is a binary64 value: rounding leaves it as it is.\<close>

definition is_binary64 :: "rat \<Rightarrow> bool" where
  "is_binary64 r = (round64 r = JNum r)"

text \<open>The relational operator \<open>a < b\<close>: false as soon as one operand is \<open>NaN\<close>.\<close>

fun jlt :: "jsnum \<Rightarrow> jsnum \<Rightarrow> bool" where
  "jlt JNaN _ = False"
| "jlt _ JNaN = False"
| "jlt _ JNegInf = False"
| "jlt JNegInf _ = True"
| "jlt JPosInf _ = False"
| "jlt _ JPosInf = True"
| "jlt (JNum a) (JNum b) = (a < b)"

text \<open>\<open>a > b\<close> is \<open>b < a\<close>.\<close>

definition jgt :: "jsnum \<Rightarrow> jsnum \<Rightarrow> bool" where
  "jgt a b = jlt b a"

text \<open>The product \<open>a * b\<close>: an infinity times zero is \<open>NaN\<close>.\<close>

fun jmul :: "jsnum \<Rightarrow> jsnum \<Rightarrow> jsnum" where
  "jmul JNaN _ = JNaN"
| "jmul _ JNaN = JNaN"
| "jmul (JNum a) (JNum b) = round64 (a * b)"
| "jmul (JNum a) JPosInf = (if a = 0 then JNaN else if 0 < a then JPosInf else JNegInf)"
| "jmul (JNum a) JNegInf = (if a = 0 then JNaN else if 0 < a then JNegInf else JPosInf)"
| "jmul JPosInf (JNum b) = (if b = 0 then JNaN else if 0 < b then JPosInf else JNegInf)"
| "jmul JNegInf (JNum b) = (if b = 0 then JNaN else if 0 < b then JNegInf else JPosInf)"
| "jmul JPosInf JPosInf = JPosInf"
| "jmul JNegInf JNegInf = JPosInf"
| "jmul JPosInf JNegInf = JNegInf"
| "jmul JNegInf JPosInf = JNegInf"

text \<open>The difference \<open>a - b\<close>: an infinity minus itself is \<open>NaN\<close>.\<close>

fun jsub :: "jsnum \<Rightarrow> jsnum \<Rightarrow> jsnum" where
  "jsub JNaN _ = JNaN"
| "jsub _ JNaN = JNaN"
| "jsub (JNum a) (JNum b) = round64 (a - b)"
| "jsub (JNum a) JPosInf = JNegInf"
| "jsub (JNum a) JNegInf = JPosInf"
| "jsub JPosInf JPosInf = JNaN"
| "jsub JNegInf JNegInf = JNaN"
| "jsub JPosInf _ = JPosInf"
| "jsub JNegInf _ = JNegInf"

text \<open>
  \<open>base ** ex\<close>. The language fixes the result where an operand is \<open>NaN\<close>, infinite or
  zero, and for a negative base with an exponent that is not an integer; for every other
  pair of finite operands it asks for an approximation of the power that the
  implementation chooses, which is the parameter \<open>Approx\<close>.
\<close>

definition jpow :: "(rat \<Rightarrow> rat \<Rightarrow> jsnum) \<Rightarrow> jsnum \<Rightarrow> jsnum \<Rightarrow> jsnum" where
  "jpow Approx base ex =
     (case ex of
        JNaN \<Rightarrow> JNaN
      | JPosInf \<Rightarrow>
          (case base of
             JNaN \<Rightarrow> JNaN
           | JNum b \<Rightarrow> (if 1 < \<bar>b\<bar> then JPosInf else if \<bar>b\<bar> = 1 then JNaN else JNum 0)
           | _ \<Rightarrow> JPosInf)
      | JNegInf \<Rightarrow>
          (case base of
             JNaN \<Rightarrow> JNaN
           | JNum b \<Rightarrow> (if 1 < \<bar>b\<bar> then JNum 0 else if \<bar>b\<bar> = 1 then JNaN else JPosInf)
           | _ \<Rightarrow> JNum 0)
      | JNum x \<Rightarrow>
          if x = 0 then JNum 1
          else case base of
            JNaN \<Rightarrow> JNaN
          | JPosInf \<Rightarrow> (if 0 < x then JPosInf else JNum 0)
          | JNegInf \<Rightarrow>
              (if 0 < x then (if of_int \<lfloor>x\<rfloor> = x \<and> odd \<lfloor>x\<rfloor> then JNegInf else JPosInf)
               else JNum 0)
          | JNum b \<Rightarrow>
              (if b = 0 then (if 0 < x then JNum 0 else JPosInf)
               else if b < 0 \<and> of_int \<lfloor>x\<rfloor> \<noteq> x then JNaN
               else Approx b x))"

text \<open>\<open>Math.min(a, b)\<close>: \<open>NaN\<close> as soon as one argument is.\<close>

definition jmin :: "jsnum \<Rightarrow> jsnum \<Rightarrow> jsnum" where
  "jmin a b = (if a = JNaN \<or> b = JNaN then JNaN else if jlt a b then a else b)"

text \<open>
  \<open>new Date(x).getTime()\<close> for a number \<open>x\<close>: the time value is clipped, that is
  \<open>NaN\<close> unless \<open>x\<close> is finite and at most 8.64e15 in absolute value, and truncated
  towards zero otherwise.
\<close>

definition Date_getTime :: "jsnum \<Rightarrow> jsnum" where
  "Date_getTime x =
     (case x of
        JNum r \<Rightarrow>
          (if 8640000000000000 < \<bar>r\<bar> then JNaN
           else JNum (of_int (if 0 \<le> r then \<lfloor>r\<rfloor> else \<lceil>r\<rceil>)))
      | _ \<Rightarrow> JNaN)"

text \<open>
  \<open>Number(s)\<close> on a string is a parameter of the model (\<open>Number\<close> below). The following
  instance is used where a concrete one is needed: it agrees with JavaScript on strings of
  at most twenty decimal digits (the empty string converts to 0) and on strings holding a
  character that no numeric literal has; it does not read signs, fractions, exponents or
  white space.
\<close>

definition digit_val :: "char \<Rightarrow> nat" where
  "digit_val c = of_char c - 48"

definition is_digit :: "char \<Rightarrow> bool" where
  "is_digit c = (48 \<le> (of_char c :: nat) \<and> (of_char c :: nat) \<le> 57)"

definition Number_digits :: "string \<Rightarrow> jsnum" where
  "Number_digits s =
     (if list_all is_digit s
      then round64 (of_nat (foldl (\<lambda>acc c. 10 * acc + digit_val c) 0 s))
      else JNaN)"

text \<open>
  An instance of the parameter \<open>Approx\<close> for the examples: the power, rounded, for an
  exponent that is an integer. It is used at \<open>2 ** 2\<close> only.
\<close>

definition pow_rounded :: "rat \<Rightarrow> rat \<Rightarrow> jsnum" where
  "pow_rounded b x =
     (if of_int \<lfloor>x\<rfloor> = x
      then round64 (if 0 \<le> x then b ^ nat \<lfloor>x\<rfloor> else inverse b ^ nat (- \<lfloor>x\<rfloor>))
      else JNaN)"

section \<open>The retry decision\<close>

subsection \<open>Data\<close>

text \<open>The statistics of a pool (\<open>pool.stats\<close>); all six are counts.\<close>

record pool_stats =
  connected_stat :: nat
  free :: nat
  pending :: nat
  queued :: nat
  running :: nat
  size_stat :: nat

text \<open>
  An own property of a pool object keyed by a symbol: a data property holding \<open>null\<close> or a
  number, or the accessor that \<open>patchIfPool\<close> installs, whose getter returns the variable
  \<open>maxConnection\<close> of the plugin.
\<close>

datatype property = Data "jsnum option" | Get_maxConnection

text \<open>
  A pool object: its statistics and its own symbol-keyed properties in key order, each with
  the description of its symbol.
\<close>

record pool =
  stats :: pool_stats
  symbols :: "(string \<times> property) list"

text \<open>
  A dispatcher of the agent's \<open>kClients\<close> map is a \<open>Pool\<close> or something else; of the
  latter only the property \<open>kRunning\<close> is read (\<open>None\<close>: it is not a number).
\<close>

datatype dispatcher = PoolD pool | OtherD "nat option"

type_synonym clients = "string \<rightharpoonup> dispatcher"

text \<open>
  The error handed to \<open>retry\<close>: \<open>statusCode\<close>, \<open>code\<close> and \<open>headers\<close> are read off it,
  each may be missing.
\<close>

record error =
  statusCode :: "int option"
  code :: "string option"
  headers :: "(string \<rightharpoonup> string) option"

record retry_options =
  maxRetries :: jsnum
  minTimeout :: jsnum
  maxTimeout :: jsnum
  timeoutFactor :: jsnum
  statusCodes :: "int list option"
  errorCodes :: "string list"
  methods :: "string list option"

text \<open>\<open>opts.origin\<close> is a string or a \<open>URL\<close> object, of which the field \<open>origin\<close> is read.\<close>

datatype origin = OriginString string | OriginURL string

text \<open>
  The request options: \<open>noRetry\<close> is \<open>None\<close> when the options carry no such object and
  the truth value of its \<open>value\<close> otherwise; \<open>method_name\<close> is the field \<open>method\<close>.
\<close>

record opts =
  noRetry :: "bool option"
  method_name :: string
  origin :: "origin option"
  retryOptions :: retry_options

text \<open>
  The decision: \<open>Fail\<close> is \<open>cb(err)\<close>, and \<open>Retry w\<close> is
  \<open>setTimeout(() => cb(null), w)\<close>.
\<close>

datatype decision = Fail | Retry jsnum

subsection \<open>Operations\<close>

text \<open>
  \<open>calculateRetryAfterHeader\<close>; \<open>current\<close> is the value of \<open>Date.now()\<close>, a whole
  number of milliseconds.
\<close>

definition calculateRetryAfterHeader :: "int \<Rightarrow> jsnum \<Rightarrow> jsnum" where
  "calculateRetryAfterHeader current retryAfter =
     jsub (Date_getTime retryAfter) (JNum (of_int current))"

text \<open>
  \<open>pool?.stats\<close>: a dispatcher that is not a pool is taken to have no statistics.
\<close>

definition stats_of :: "dispatcher option \<Rightarrow> pool_stats option" where
  "stats_of d = (case d of Some (PoolD p) \<Rightarrow> Some (stats p) | _ \<Rightarrow> None)"

text \<open>
  The test \<open>!stats?.connected && !stats?.pending && !stats?.running && !stats?.queued
  && !stats?.free\<close>.
\<close>

definition no_connection :: "pool_stats option \<Rightarrow> bool" where
  "no_connection st =
     (case st of
        None \<Rightarrow> True
      | Some s \<Rightarrow> connected_stat s = 0 \<and> pending s = 0 \<and> running s = 0 \<and> queued s = 0 \<and> free s = 0)"

text \<open>\<open>typeof opts.origin === 'string' ? opts.origin : opts.origin.origin\<close>.\<close>

fun origin_key :: "origin \<Rightarrow> string" where
  "origin_key (OriginString s) = s"
| "origin_key (OriginURL s) = s"

text \<open>
  The check of the error code: true when the decision fails there. A code that is neither
  \<open>UND_ERR_REQ_RETRY\<close> nor an allowed one fails, but for \<open>UND_ERR_CONNECT_TIMEOUT\<close>
  when the pool of the origin has a connection. In \<open>!opts.origin\<close> a missing origin and
  the empty string are falsy, a \<open>URL\<close> object is not.
\<close>

definition code_fails :: "clients \<Rightarrow> error \<Rightarrow> opts \<Rightarrow> bool" where
  "code_fails cl err op =
     (case code err of
        None \<Rightarrow> False
      | Some c \<Rightarrow>
          if c \<noteq> [] \<and> c \<noteq> ''UND_ERR_REQ_RETRY'' \<and> c \<notin> set (errorCodes (retryOptions op)) then
            (if c \<noteq> ''UND_ERR_CONNECT_TIMEOUT'' then True
             else case origin op of
               None \<Rightarrow> True
             | Some og \<Rightarrow>
                 if og = OriginString [] then True
                 else no_connection (stats_of (cl (origin_key og))))
          else False)"

text \<open>
  The variable \<open>retryAfterHeader\<close> after the conversion: \<open>None\<close> when the header is
  missing or empty (then it is not converted and \<open>retryAfterHeader > 0\<close> is false), and the
  number otherwise. The string has been replaced by \<open>Number\<close> of it when
  \<open>calculateRetryAfterHeader\<close> is called, so that the function receives the number.
\<close>

definition retryAfterHeader :: "(string \<Rightarrow> jsnum) \<Rightarrow> int \<Rightarrow> error \<Rightarrow> jsnum option" where
  "retryAfterHeader Number current err =
     (case headers err of
        None \<Rightarrow> None
      | Some h \<Rightarrow>
          (case h ''retry-after'' of
             None \<Rightarrow> None
           | Some v \<Rightarrow>
               if v = [] then None
               else let n = Number v
                    in Some (if n = JNaN then calculateRetryAfterHeader current n
                             else jmul n (JNum 1000))))"

text \<open>
  The exponential backoff \<open>Math.min(minTimeout * timeoutFactor ** (counter - 1), maxTimeout)\<close>,
  each operation that of the language; the counter is an integer.
\<close>

definition backoff :: "(rat \<Rightarrow> rat \<Rightarrow> jsnum) \<Rightarrow> int \<Rightarrow> retry_options \<Rightarrow> jsnum" where
  "backoff Approx counter ro =
     jmin (jmul (minTimeout ro)
             (jpow Approx (timeoutFactor ro) (jsub (JNum (of_int counter)) (JNum 1))))
       (maxTimeout ro)"

definition retryTimeout ::
  "(string \<Rightarrow> jsnum) \<Rightarrow> (rat \<Rightarrow> rat \<Rightarrow> jsnum) \<Rightarrow> int \<Rightarrow> error \<Rightarrow> int \<Rightarrow> retry_options \<Rightarrow>
     jsnum" where
  "retryTimeout Number Approx current err counter ro =
     (case retryAfterHeader Number current err of
        None \<Rightarrow> backoff Approx counter ro
      | Some r \<Rightarrow> if jgt r (JNum 0) then jmin r (maxTimeout ro) else backoff Approx counter ro)"

text \<open>
  The function \<open>retry\<close> of the retry options. Its parameters beside the error, the counter
  of the state and the options are what it reads from outside: \<open>Number\<close>, the power of
  the implementation, the clock and the pools of the agent.
\<close>

definition retry ::
  "(string \<Rightarrow> jsnum) \<Rightarrow> (rat \<Rightarrow> rat \<Rightarrow> jsnum) \<Rightarrow> int \<Rightarrow> clients \<Rightarrow> error \<Rightarrow> int \<Rightarrow> opts \<Rightarrow>
     decision" where
  "retry Number Approx current cl err counter op =
     (let ro = retryOptions op in
      if noRetry op = Some True then Fail
      else if code_fails cl err op then Fail
      else if (case methods ro of Some ms \<Rightarrow> method_name op \<notin> set ms | None \<Rightarrow> False) then Fail
      else if (case statusCode err of
                 Some sc \<Rightarrow> (case statusCodes ro of Some scs \<Rightarrow> sc \<notin> set scs | None \<Rightarrow> False)
               | None \<Rightarrow> False) then Fail
      else if jgt (JNum (of_int counter)) (maxRetries ro) then Fail
      else Retry (retryTimeout Number Approx current err counter ro))"

section \<open>The concurrency cap and the proxy settings\<close>

text \<open>
  Modelled from the spec: the class \<open>ProxySettingController\<close>, which is not among the
  sources. It holds the proxy URL and the enabled flag, and its two setters store their
  argument.
\<close>

record 'u proxy_control =
  proxy_url :: "'u option"
  proxy_enabled :: bool

definition setProxy :: "'u \<Rightarrow> 'u proxy_control \<Rightarrow> 'u proxy_control" where
  "setProxy u pc = pc\<lparr>proxy_url := Some u\<rparr>"

definition setProxyEnabled :: "bool \<Rightarrow> 'u proxy_control \<Rightarrow> 'u proxy_control" where
  "setProxyEnabled e pc = pc\<lparr>proxy_enabled := e\<rparr>"

text \<open>
  The variables of the plugin that the settings change: \<open>maxConnection\<close>, the controller
  \<open>proxyControl\<close>, the application (of type \<open>'a\<close>, changed by \<open>app.setProxy\<close> only) and
  the warnings of the logger, oldest first.
\<close>

record ('u, 'a) plugin =
  maxConnection :: jsnum
  proxyControl :: "'u proxy_control"
  app :: 'a
  log :: "string list"

text \<open>The fields of the settings that the plugin reads.\<close>

record settings =
  maxSockets :: jsnum
  httpProxyEnabled :: bool
  httpProxy :: string

text \<open>A call that returns, or throws, leaving a state either way.\<close>

datatype 'a outcome = Returns 'a | Throws 'a

text \<open>
  What the plugin calls and does not define: the constructor \<open>new URL(s)\<close>, which throws
  on a string that is not a valid URL (\<open>None\<close>), the method \<open>app.setProxy\<close>, and the
  environment's proxy \<open>globalProxyHttps\<close>, a string or undefined.
\<close>

record ('u, 'a) host =
  URL_new :: "string \<Rightarrow> 'u option"
  app_setProxy :: "string \<Rightarrow> 'a \<Rightarrow> 'a outcome"
  globalProxyHttps :: "string option"

text \<open>\<open>logger.warn\<close> with the message of both \<open>catch\<close> blocks.\<close>

definition warn_invalid :: "string \<Rightarrow> ('u, 'a) plugin \<Rightarrow> ('u, 'a) plugin" where
  "warn_invalid p s =
     s\<lparr>log := log s @ [''Fail to set url as it'' @ [CHR 0x27] @ ''s not a valid url '' @ p]\<rparr>"

text \<open>
  The callback that runs once the settings are there. Both the invalid URL and a throwing
  \<open>app.setProxy\<close> end in the \<open>catch\<close> block.
\<close>

definition on_settings ::
  "('u, 'a) host \<Rightarrow> settings \<Rightarrow> ('u, 'a) plugin \<Rightarrow> ('u, 'a) plugin" where
  "on_settings h st s =
     (let s1 = s\<lparr>maxConnection :=
                  (if jgt (maxSockets st) (JNum 0) then maxSockets st else JNum 64)\<rparr>;
          s2 = s1\<lparr>proxyControl := setProxyEnabled (httpProxyEnabled st) (proxyControl s1)\<rparr>;
          proxy = (if httpProxy st \<noteq> [] then Some (httpProxy st) else globalProxyHttps h)
      in case proxy of
           None \<Rightarrow> s2
         | Some p \<Rightarrow>
             if p = [] then s2
             else case URL_new h p of
               None \<Rightarrow> warn_invalid p s2
             | Some u \<Rightarrow>
                 (let s3 = s2\<lparr>proxyControl := setProxy u (proxyControl s2)\<rparr>
                  in case app_setProxy h p (app s3) of
                       Returns a \<Rightarrow> s3\<lparr>app := a\<rparr>
                     | Throws a \<Rightarrow> warn_invalid p (s3\<lparr>app := a\<rparr>)))"

text \<open>The subscriber of \<open>maxSocketsSet\<close>.\<close>

definition maxSocketsSet :: "jsnum \<Rightarrow> ('u, 'a) plugin \<Rightarrow> ('u, 'a) plugin" where
  "maxSocketsSet val s = s\<lparr>maxConnection := (if jgt val (JNum 0) then val else JNum 64)\<rparr>"

text \<open>
  The subscriber of \<open>httpProxySet\<close>: \<open>app.setProxy\<close> is called first and outside the
  \<open>try\<close> block.
\<close>

definition httpProxySet ::
  "('u, 'a) host \<Rightarrow> string \<Rightarrow> ('u, 'a) plugin \<Rightarrow> ('u, 'a) plugin outcome" where
  "httpProxySet h p s =
     (case app_setProxy h p (app s) of
        Throws a \<Rightarrow> Throws (s\<lparr>app := a\<rparr>)
      | Returns a \<Rightarrow>
          (let s1 = s\<lparr>app := a\<rparr>
           in case URL_new h p of
                None \<Rightarrow> Returns (warn_invalid p s1)
              | Some u \<Rightarrow> Returns (s1\<lparr>proxyControl := setProxy u (proxyControl s1)\<rparr>)))"

section \<open>Pools\<close>

text \<open>
  \<open>patchIfPool\<close>: on a pool with an own symbol described \<open>connections\<close>, the property
  under the first such symbol becomes the accessor that returns \<open>maxConnection\<close>.
\<close>

definition patchIfPool :: "dispatcher \<Rightarrow> dispatcher" where
  "patchIfPool d =
     (case d of
        PoolD p \<Rightarrow>
          (case find (\<lambda>k. fst k = ''connections'') (symbols p) of
             Some _ \<Rightarrow> PoolD (p\<lparr>symbols := AList.update ''connections'' Get_maxConnection (symbols p)\<rparr>)
           | None \<Rightarrow> d)
      | OtherD _ \<Rightarrow> d)"

text \<open>The factory of the agent; \<open>new_Pool\<close> stands for the constructor \<open>new Pool(origin, opts)\<close>.\<close>

definition factory :: "(string \<Rightarrow> pool) \<Rightarrow> string \<Rightarrow> dispatcher" where
  "factory new_Pool og = patchIfPool (PoolD (new_Pool og))"

text \<open>
  What a pool reads as its connection limit, \<open>this[kConnections]\<close>, when \<open>maxConnection\<close>
  has the value \<open>mc\<close>: a data property gives its value, the accessor evaluates its getter.
  The symbol \<open>kConnections\<close> of the pool is taken to be its first own symbol described
  \<open>connections\<close>, the one that \<open>patchIfPool\<close> finds.
\<close>

definition connections :: "jsnum \<Rightarrow> dispatcher \<Rightarrow> jsnum option" where
  "connections mc d =
     (case d of
        PoolD p \<Rightarrow>
          (case map_of (symbols p) ''connections'' of
             None \<Rightarrow> None
           | Some (Data v) \<Rightarrow> v
           | Some Get_maxConnection \<Rightarrow> Some mc)
      | OtherD _ \<Rightarrow> None)"

text \<open>
  The agent: its \<open>kClients\<close> map, the calls of \<open>close\<close> and \<open>destroy\<close> made so far on the
  dispatcher of an origin, and the timers set, each with its delay in milliseconds and the
  origin whose check it runs.
\<close>

datatype call = Close string | Destroy string

record agent =
  clients :: clients
  calls :: "call list"
  timers :: "(nat \<times> string) list"

text \<open>The handler of \<open>drain\<close> sets a timer of 60000 ms; \<open>og\<close> is \<open>url.origin\<close>.\<close>

definition on_drain :: "string \<Rightarrow> agent \<Rightarrow> agent" where
  "on_drain og s = s\<lparr>timers := timers s @ [(60000, og)]\<rparr>"

text \<open>\<open>pool?.close()\<close> followed by \<open>clients.delete(url.origin)\<close>.\<close>

definition close_and_delete :: "string \<Rightarrow> agent \<Rightarrow> agent" where
  "close_and_delete og s = s\<lparr>clients := (clients s)(og := None), calls := calls s @ [Close og]\<rparr>"

text \<open>
  The callback of that timer, on the agent as it is when the timer fires. Without a
  dispatcher for the origin, \<open>kRunning\<close> is undefined and nothing happens.
\<close>

definition drain_check :: "string \<Rightarrow> agent \<Rightarrow> agent" where
  "drain_check og s =
     (case clients s og of
        Some (PoolD p) \<Rightarrow>
          if no_connection (Some (stats p)) then close_and_delete og s else s
      | Some (OtherD r) \<Rightarrow>
          if r = Some 0 then close_and_delete og s else s
      | None \<Rightarrow> s)"

text \<open>
  A promise of the dispatcher: fulfilled or rejected some milliseconds after the call, or
  never settled.
\<close>

datatype settle = Fulfils nat | Rejects nat | Unsettled

text \<open>
  How \<open>destroyPool\<close> ends: its promise is fulfilled, rejected, or stays pending; the agent
  is given as it then is.
\<close>

datatype completion = Resolved agent | Rejected agent | Hangs agent

text \<open>
  \<open>pool?.destroy()\<close> once the deadline has won the race, then \<open>clients.delete(origin)\<close>
  if the promise of \<open>destroy\<close> is fulfilled.
\<close>

definition force_destroy :: "settle \<Rightarrow> string \<Rightarrow> agent \<Rightarrow> completion" where
  "force_destroy destroying og s =
     (let s1 = s\<lparr>calls := calls s @ [Destroy og]\<rparr>
      in case destroying of
           Fulfils _ \<Rightarrow> Resolved (s1\<lparr>clients := (clients s1)(og := None)\<rparr>)
         | Rejects _ \<Rightarrow> Rejected s1
         | Unsettled \<Rightarrow> Hangs s1)"

text \<open>
  \<open>destroyPool\<close>; \<open>closing\<close> and \<open>destroying\<close> say how the promises of \<open>pool.close()\<close>
  and \<open>pool.destroy()\<close> settle. The race is won by \<open>close\<close> when its promise settles
  before the 500 ms are over, and by the deadline otherwise. Without a pool the race is
  over at once with undefined, nothing is destroyed, and the key is deleted.
\<close>

definition destroyPool :: "settle \<Rightarrow> settle \<Rightarrow> string \<Rightarrow> agent \<Rightarrow> completion" where
  "destroyPool closing destroying og s =
     (case clients s og of
        None \<Rightarrow> Resolved (s\<lparr>clients := (clients s)(og := None)\<rparr>)
      | Some _ \<Rightarrow>
          (let s1 = s\<lparr>calls := calls s @ [Close og]\<rparr>
           in case closing of
                Fulfils t \<Rightarrow>
                  if t < 500 then Resolved (s1\<lparr>clients := (clients s1)(og := None)\<rparr>)
                  else force_destroy destroying og s1
              | Rejects t \<Rightarrow>
                  if t < 500 then Rejected s1
                  else force_destroy destroying og s1
              | Unsettled \<Rightarrow> force_destroy destroying og s1))"

section \<open>Sample inputs\<close>

text \<open>Retry options with an exponential backoff from 500 ms, doubling, up to 30 s.\<close>

definition sample_options :: retry_options where
  "sample_options =
     \<lparr>maxRetries = JNum 5, minTimeout = JNum 500, maxTimeout = JNum 30000,
      timeoutFactor = JNum 2, statusCodes = Some [500, 502, 503, 504, 429],
      errorCodes = [''ECONNRESET'', ''ECONNREFUSED'', ''ENOTFOUND''],
      methods = Some [''GET'', ''HEAD'', ''PUT'']\<rparr>"

definition sample_opts :: opts where
  "sample_opts =
     \<lparr>noRetry = None, method_name = ''GET'', origin = Some (OriginString ''https://a.example''),
      retryOptions = sample_options\<rparr>"

text \<open>A response 503 with the given \<open>retry-after\<close> header, and one without headers.\<close>

definition unavailable :: "string \<Rightarrow> error" where
  "unavailable v =
     \<lparr>statusCode = Some 503, code = None, headers = Some [''retry-after'' \<mapsto> v]\<rparr>"

definition unavailable_plain :: error where
  "unavailable_plain = \<lparr>statusCode = Some 503, code = None, headers = None\<rparr>"

text \<open>A connect timeout.\<close>

definition connect_timeout :: error where
  "connect_timeout =
     \<lparr>statusCode = None, code = Some ''UND_ERR_CONNECT_TIMEOUT'', headers = None\<rparr>"

text \<open>
  A pool whose limit is still the data property \<open>null\<close>, with one running request or
  with none.
\<close>

definition pool_running :: "nat \<Rightarrow> pool" where
  "pool_running n =
     \<lparr>stats = \<lparr>connected_stat = 0, free = 0, pending = 0, queued = 0, running = n, size_stat = 0\<rparr>,
      symbols = [(''options'', Data None), (''connections'', Data None), (''factory'', Data None)]\<rparr>"

text \<open>An agent with the one pool, no call made and no timer set.\<close>

definition agent_with :: "dispatcher \<Rightarrow> agent" where
  "agent_with d = \<lparr>clients = [''https://a.example'' \<mapsto> d], calls = [], timers = []\<rparr>"

text \<open>
  A host for the examples. Its stand-in for \<open>new URL\<close> accepts a string that starts with
  \<open>http://\<close> or \<open>https://\<close> and rejects every other one; it is used at a string
  without a scheme, which the constructor rejects. Its application is the list of the
  strings given to \<open>app.setProxy\<close>, which always returns.
\<close>

definition sample_host :: "(string, string list) host" where
  "sample_host =
     \<lparr>URL_new = (\<lambda>s. if take 7 s = ''http://'' \<or> take 8 s = ''https://'' then Some s else None),
      app_setProxy = (\<lambda>p a. Returns (a @ [p])),
      globalProxyHttps = None\<rparr>"

definition sample_plugin :: "(string, string list) plugin" where
  "sample_plugin =
     \<lparr>maxConnection = JNum 64,
      proxyControl = \<lparr>proxy_url = Some ''http://127.0.0.1:7890'', proxy_enabled = True\<rparr>,
      app = [], log = []\<rparr>"

definition sample_settings :: settings where
  "sample_settings = \<lparr>maxSockets = JNum 16, httpProxyEnabled = False, httpProxy = []\<rparr>"

section \<open>Properties of the numbers\<close>

lemma jmin_not_above: "\<not> jgt (jmin a b) b"
  by (cases a; cases b) (simp_all add: jmin_def jgt_def)

lemma jmin_finite: "jmin (JNum x) (JNum m) = JNum (min x m)"
  by (simp add: jmin_def min_def)

lemma round64_0: "round64 0 = JNum 0"
  by (simp add: round64_def)

lemma round64_small:
  "round64 2 = JNum 2" "round64 4 = JNum 4"
  "round64 400 = JNum 400" "round64 500 = JNum 500"
  by code_simp+

lemma jpow_zero: "jpow Approx base (JNum 0) = JNum 1"
  by (simp add: jpow_def)

lemma pow_rounded_2_2: "pow_rounded 2 2 = JNum 4"
  by (simp add: pow_rounded_def round64_small)

lemma Number_digits_date: "Number_digits ''Wed, 21 Oct 2015 07:28:02 GMT'' = JNaN"
  by (simp add: Number_digits_def is_digit_def)

lemma Number_digits_zero: "Number_digits ''0'' = JNum 0"
  by (simp add: Number_digits_def is_digit_def digit_val_def round64_0)

section \<open>The wait of a retry\<close>

text \<open>
  Where the three operations of the backoff are exact, it is the minimum of the product
  and \<open>maxTimeout\<close> over the rationals.
\<close>

lemma backoff_exact:
  assumes "minTimeout ro = JNum a" "timeoutFactor ro = JNum f" "maxTimeout ro = JNum m"
    and "is_binary64 (of_int (counter - 1))"
    and "jpow Approx (JNum f) (JNum (of_int (counter - 1))) = JNum (f ^ nat (counter - 1))"
    and "is_binary64 (a * f ^ nat (counter - 1))"
  shows "backoff Approx counter ro = JNum (min (a * f ^ nat (counter - 1)) m)"
proof -
  have "jsub (JNum (of_int counter)) (JNum 1) = JNum (of_int (counter - 1))"
    using assms(4) by (simp add: is_binary64_def)
  then have "jpow Approx (timeoutFactor ro) (jsub (JNum (of_int counter)) (JNum 1)) =
      JNum (f ^ nat (counter - 1))"
    using assms(2,5) by simp
  moreover have "jmul (JNum a) (JNum (f ^ nat (counter - 1))) = JNum (a * f ^ nat (counter - 1))"
    using assms(6) by (simp add: is_binary64_def)
  ultimately show ?thesis
    using assms(1,3) by (simp add: backoff_def jmin_finite)
qed

lemma retryTimeout_not_above:
  "\<not> jgt (retryTimeout Number Approx current err counter ro) (maxTimeout ro)"
  by (simp add: retryTimeout_def backoff_def jmin_not_above split: option.split)

lemma retry_Retry_timeout:
  "retry Number Approx current cl err counter op = Retry w \<Longrightarrow>
     w = retryTimeout Number Approx current err counter (retryOptions op)"
  by (simp add: retry_def Let_def split: if_splits)

lemma retryTimeout_no_positive:
  "\<not> (\<exists>r. retryAfterHeader Number current err = Some r \<and> jgt r (JNum 0)) \<Longrightarrow>
     retryTimeout Number Approx current err counter ro = backoff Approx counter ro"
  by (simp add: retryTimeout_def split: option.split)

text \<open>
  A header that \<open>Number\<close> does not read as a number never reaches the date arithmetic as a
  string: \<open>calculateRetryAfterHeader\<close> is given \<open>NaN\<close> and returns \<open>NaN\<close>, whatever
  the clock, and the wait is the backoff.
\<close>

lemma retryAfterHeader_not_numeric:
  assumes "headers err = Some h" "h ''retry-after'' = Some v" "v \<noteq> []" "Number v = JNaN"
  shows "retryAfterHeader Number current err = Some JNaN"
  using assms by (simp add: retryAfterHeader_def calculateRetryAfterHeader_def Date_getTime_def)

lemma retryTimeout_not_numeric:
  assumes "headers err = Some h" "h ''retry-after'' = Some v" "v \<noteq> []" "Number v = JNaN"
  shows "retryTimeout Number Approx current err counter ro = backoff Approx counter ro"
  using assms
  by (simp add: retryTimeout_def retryAfterHeader_def calculateRetryAfterHeader_def
      Date_getTime_def jgt_def)

lemma sample_passes:
  "retry Number Approx current cl (unavailable v) 1 sample_opts =
     Retry (retryTimeout Number Approx current (unavailable v) 1 sample_options)"
  by (simp add: retry_def sample_opts_def sample_options_def unavailable_def code_fails_def jgt_def)

lemma sample_backoff_first: "backoff Approx 1 sample_options = JNum 500"
  by (simp add: backoff_def sample_options_def round64_0 jpow_zero round64_small jmin_def)

text \<open>
  C1. A \<open>retry-after\<close> header that is an HTTP date is meant to give the wait until that
  date. The code does not do so: at 07:28:00 GMT (1445412480000 ms), the date two seconds
  later gives the backoff of the first attempt, 500 ms, and not 2000 ms.
\<close>

theorem retry_after_http_date_gets_backoff:
  "retry Number_digits pow_rounded 1445412480000 Map.empty
     (unavailable ''Wed, 21 Oct 2015 07:28:02 GMT'') 1 sample_opts = Retry (JNum 500) \<and>
   JNum 500 \<noteq> jmin (JNum (1445412482000 - 1445412480000)) (maxTimeout sample_options)"
proof -
  have "retryTimeout Number_digits pow_rounded 1445412480000
          (unavailable ''Wed, 21 Oct 2015 07:28:02 GMT'') 1 sample_options =
        backoff pow_rounded 1 sample_options"
    by (rule retryTimeout_not_numeric [where h = "[''retry-after'' \<mapsto> ''Wed, 21 Oct 2015 07:28:02 GMT'']"
          and v = "''Wed, 21 Oct 2015 07:28:02 GMT''"])
       (simp_all add: unavailable_def Number_digits_date)
  then show ?thesis
    by (simp add: sample_passes sample_backoff_first) (simp add: sample_options_def jmin_def)
qed

text \<open>
  C5. A decision that reaches the computation of the wait without a \<open>retry-after\<close>
  header, or with one whose delay is not strictly positive, waits for
  \<open>Math.min(minTimeout * timeoutFactor ** (counter - 1), maxTimeout)\<close>, with the
  operations of the language, and the wait is never above \<open>maxTimeout\<close>. From the first
  attempt on, and where the difference, the power and the product are exact, the wait is
  \<open>min (a * f ^ (counter - 1)) m\<close>.
\<close>

theorem backoff_without_positive_header:
  assumes "retry Number Approx current cl err counter op = Retry w"
    and "\<not> (\<exists>r. retryAfterHeader Number current err = Some r \<and> jgt r (JNum 0))"
  shows "w = jmin (jmul (minTimeout (retryOptions op))
                    (jpow Approx (timeoutFactor (retryOptions op))
                       (jsub (JNum (of_int counter)) (JNum 1))))
               (maxTimeout (retryOptions op)) \<and>
         \<not> jgt w (maxTimeout (retryOptions op)) \<and>
         (\<forall>a f m. minTimeout (retryOptions op) = JNum a \<and>
            timeoutFactor (retryOptions op) = JNum f \<and>
            maxTimeout (retryOptions op) = JNum m \<and> 1 \<le> counter \<and>
            is_binary64 (of_int (counter - 1)) \<and>
            jpow Approx (JNum f) (JNum (of_int (counter - 1))) = JNum (f ^ nat (counter - 1)) \<and>
            is_binary64 (a * f ^ nat (counter - 1)) \<longrightarrow>
            w = JNum (min (a * f ^ nat (counter - 1)) m))"
proof -
  have "w = retryTimeout Number Approx current err counter (retryOptions op)"
    using assms(1) by (rule retry_Retry_timeout)
  moreover have "retryTimeout Number Approx current err counter (retryOptions op) =
      backoff Approx counter (retryOptions op)"
    using assms(2) by (rule retryTimeout_no_positive)
  ultimately have w: "w = backoff Approx counter (retryOptions op)"
    by simp
  have above: "\<not> jgt w (maxTimeout (retryOptions op))"
    unfolding w backoff_def by (rule jmin_not_above)
  have exact: "w = JNum (min (a * f ^ nat (counter - 1)) m)"
    if "minTimeout (retryOptions op) = JNum a" "timeoutFactor (retryOptions op) = JNum f"
      "maxTimeout (retryOptions op) = JNum m" "is_binary64 (of_int (counter - 1))"
      "jpow Approx (JNum f) (JNum (of_int (counter - 1))) = JNum (f ^ nat (counter - 1))"
      "is_binary64 (a * f ^ nat (counter - 1))" for a f m
    unfolding w using that by (rule backoff_exact)
  from w above exact show ?thesis
    unfolding backoff_def by blast
qed

theorem backoff_without_positive_header_witness:
  "retry Number_digits pow_rounded 0 Map.empty unavailable_plain 3
     (sample_opts\<lparr>retryOptions := sample_options\<lparr>minTimeout := JNum 100, maxTimeout := JNum 100000\<rparr>\<rparr>) =
     Retry (JNum 400) \<and>
   JNum 400 = JNum (min (100 * 2 ^ nat (3 - 1)) 100000) \<and>
   \<not> jgt (JNum 400) (JNum 100000) \<and>
   retry Number_digits pow_rounded 0 Map.empty (unavailable ''0'') 1 sample_opts = Retry (JNum 500) \<and>
   JNum 500 = JNum (min (500 * 2 ^ nat (1 - 1)) 30000)"
proof -
  let ?op = "sample_opts\<lparr>retryOptions := sample_options\<lparr>minTimeout := JNum 100, maxTimeout := JNum 100000\<rparr>\<rparr>"
  have p: "jpow pow_rounded (JNum 2) (JNum 2) = JNum 4"
    by (simp add: jpow_def pow_rounded_2_2)
  have r1: "retry Number_digits pow_rounded 0 Map.empty unavailable_plain 3 ?op = Retry (JNum 400)"
    by (simp add: retry_def sample_opts_def sample_options_def unavailable_plain_def
        code_fails_def jgt_def retryTimeout_def retryAfterHeader_def backoff_def
        round64_small p jmin_def)
  have h1: "\<not> (\<exists>r. retryAfterHeader Number_digits 0 unavailable_plain = Some r \<and> jgt r (JNum 0))"
    by (simp add: retryAfterHeader_def unavailable_plain_def)
  have r2: "retry Number_digits pow_rounded 0 Map.empty (unavailable ''0'') 1 sample_opts =
      Retry (JNum 500)"
    unfolding sample_passes
    by (simp add: retryTimeout_def retryAfterHeader_def unavailable_def
        Number_digits_zero round64_0 jgt_def sample_backoff_first)
  have h2: "\<not> (\<exists>r. retryAfterHeader Number_digits 0 (unavailable ''0'') = Some r \<and> jgt r (JNum 0))"
    by (simp add: retryAfterHeader_def unavailable_def Number_digits_zero round64_0 jgt_def)
  have "JNum 400 = JNum (min (100 * 2 ^ nat (3 - 1)) 100000) \<and> \<not> jgt (JNum 400) (JNum 100000)"
    using backoff_without_positive_header [OF r1 h1] p
    by (simp add: sample_opts_def sample_options_def jgt_def is_binary64_def round64_small)
  moreover have "JNum 500 = JNum (min (500 * 2 ^ nat (1 - 1)) 30000)"
    using backoff_without_positive_header [OF r2 h2]
    by (simp add: sample_opts_def sample_options_def is_binary64_def round64_0 round64_small
        jpow_zero)
  ultimately show ?thesis using r1 r2 by simp
qed

section \<open>The checks before the wait\<close>

text \<open>
  C6. When the counter is greater than \<open>maxRetries\<close>, and so when it is
  \<open>maxRetries + 1\<close>, the decision is to fail, whatever the error, its headers, the
  method and the pools are.
\<close>

theorem retry_budget_exhausted_fails:
  assumes "jgt (JNum (of_int counter)) (maxRetries (retryOptions op))"
  shows "retry Number Approx current cl err counter op = Fail"
  using assms by (simp add: retry_def Let_def)

theorem retry_budget_exhausted_fails_witness:
  "jgt (JNum (of_int (5 + 1))) (maxRetries (retryOptions sample_opts)) \<and>
   retry Number_digits pow_rounded 0 Map.empty (unavailable ''5'') (5 + 1) sample_opts = Fail"
proof -
  have h: "jgt (JNum (of_int (5 + 1))) (maxRetries (retryOptions sample_opts))"
    by (simp add: sample_opts_def sample_options_def jgt_def)
  from h retry_budget_exhausted_fails [OF h] show ?thesis by simp
qed

text \<open>
  C3. An error with the code of a connect timeout, which the allowed error codes do not
  hold, on a request with an origin: when the pool of the origin has one of \<open>connected\<close>,
  \<open>pending\<close>, \<open>running\<close>, \<open>queued\<close>, \<open>free\<close> other than zero, the check of the code
  lets the error pass and the decision is that of the later checks, the one taken for the
  same error without a code; when the agent has no pool for the origin, or all five are
  zero, the decision is to fail.
\<close>

theorem connect_timeout_decided_by_pool:
  assumes "code err = Some ''UND_ERR_CONNECT_TIMEOUT''"
    and "''UND_ERR_CONNECT_TIMEOUT'' \<notin> set (errorCodes (retryOptions op))"
    and "origin op = Some og" and "og \<noteq> OriginString []"
  shows "(\<forall>p. cl (origin_key og) = Some (PoolD p) \<and>
            (connected_stat (stats p) \<noteq> 0 \<or> pending (stats p) \<noteq> 0 \<or> running (stats p) \<noteq> 0 \<or>
             queued (stats p) \<noteq> 0 \<or> free (stats p) \<noteq> 0) \<longrightarrow>
            \<not> code_fails cl err op \<and>
            retry Number Approx current cl err counter op =
              retry Number Approx current cl (err\<lparr>code := None\<rparr>) counter op) \<and>
         (cl (origin_key og) = None \<or>
          (\<exists>p. cl (origin_key og) = Some (PoolD p) \<and>
             connected_stat (stats p) = 0 \<and> pending (stats p) = 0 \<and> running (stats p) = 0 \<and>
             queued (stats p) = 0 \<and> free (stats p) = 0) \<longrightarrow>
          retry Number Approx current cl err counter op = Fail)"
proof -
  have fails: "code_fails cl err op = no_connection (stats_of (cl (origin_key og)))"
    using assms by (simp add: code_fails_def)
  have none: "\<not> code_fails cl (err\<lparr>code := None\<rparr>) op"
    by (simp add: code_fails_def)
  have same: "\<not> code_fails cl err op \<Longrightarrow>
      retry Number Approx current cl err counter op =
        retry Number Approx current cl (err\<lparr>code := None\<rparr>) counter op"
    using none by (simp add: retry_def Let_def retryTimeout_def retryAfterHeader_def)
  show ?thesis
    using fails same by (auto simp add: no_connection_def stats_of_def retry_def Let_def)
qed

theorem connect_timeout_decided_by_pool_witness:
  "retry Number_digits pow_rounded 0 [''https://a.example'' \<mapsto> PoolD (pool_running 1)]
     connect_timeout 1 sample_opts = Retry (JNum 500) \<and>
   retry Number_digits pow_rounded 0 [''https://a.example'' \<mapsto> PoolD (pool_running 0)]
     connect_timeout 1 sample_opts = Fail \<and>
   retry Number_digits pow_rounded 0 Map.empty connect_timeout 1 sample_opts = Fail"
proof -
  have c: "code connect_timeout = Some ''UND_ERR_CONNECT_TIMEOUT''"
    by (simp add: connect_timeout_def)
  have e: "''UND_ERR_CONNECT_TIMEOUT'' \<notin> set (errorCodes (retryOptions sample_opts))"
    by (simp add: sample_opts_def sample_options_def)
  have o: "origin sample_opts = Some (OriginString ''https://a.example'')"
    by (simp add: sample_opts_def)
  have n: "OriginString ''https://a.example'' \<noteq> OriginString []"
    by simp
  have later: "retry Number_digits pow_rounded 0 cl (connect_timeout\<lparr>code := None\<rparr>) 1 sample_opts =
      Retry (JNum 500)" for cl
    by (simp add: retry_def sample_opts_def connect_timeout_def code_fails_def
        retryTimeout_def retryAfterHeader_def sample_backoff_first)
       (simp add: sample_options_def jgt_def)
  have "retry Number_digits pow_rounded 0 [''https://a.example'' \<mapsto> PoolD (pool_running 1)]
          connect_timeout 1 sample_opts = Retry (JNum 500)"
    using connect_timeout_decided_by_pool [OF c e o n,
        of "[''https://a.example'' \<mapsto> PoolD (pool_running 1)]" Number_digits pow_rounded 0 1]
    by (simp add: pool_running_def later)
  moreover have "retry Number_digits pow_rounded 0 [''https://a.example'' \<mapsto> PoolD (pool_running 0)]
          connect_timeout 1 sample_opts = Fail"
    using connect_timeout_decided_by_pool [OF c e o n,
        of "[''https://a.example'' \<mapsto> PoolD (pool_running 0)]" Number_digits pow_rounded 0 1]
    by (simp add: pool_running_def)
  moreover have "retry Number_digits pow_rounded 0 Map.empty connect_timeout 1 sample_opts = Fail"
    using connect_timeout_decided_by_pool [OF c e o n, of Map.empty Number_digits pow_rounded 0 1]
    by simp
  ultimately show ?thesis by simp
qed

text \<open>
  C10. An error with the code of a connect timeout, which the allowed error codes do not
  hold, on a request without an origin: the decision is to fail, whatever the pools of the
  agent are.
\<close>

theorem connect_timeout_without_origin_fails:
  assumes "code err = Some ''UND_ERR_CONNECT_TIMEOUT''"
    and "''UND_ERR_CONNECT_TIMEOUT'' \<notin> set (errorCodes (retryOptions op))"
    and "origin op = None \<or> origin op = Some (OriginString [])"
  shows "\<forall>cl. retry Number Approx current cl err counter op = Fail"
  using assms by (auto simp add: retry_def Let_def code_fails_def)

theorem connect_timeout_without_origin_fails_witness:
  "retry Number_digits pow_rounded 0 [[] \<mapsto> PoolD (pool_running 1)] connect_timeout 1
     (sample_opts\<lparr>origin := None\<rparr>) = Fail \<and>
   retry Number_digits pow_rounded 0 [[] \<mapsto> PoolD (pool_running 1)] connect_timeout 1
     (sample_opts\<lparr>origin := Some (OriginString [])\<rparr>) = Fail"
proof -
  have c: "code connect_timeout = Some ''UND_ERR_CONNECT_TIMEOUT''"
    by (simp add: connect_timeout_def)
  have e1: "''UND_ERR_CONNECT_TIMEOUT'' \<notin>
      set (errorCodes (retryOptions (sample_opts\<lparr>origin := None\<rparr>)))"
    by (simp add: sample_opts_def sample_options_def)
  have e2: "''UND_ERR_CONNECT_TIMEOUT'' \<notin>
      set (errorCodes (retryOptions (sample_opts\<lparr>origin := Some (OriginString [])\<rparr>)))"
    by (simp add: sample_opts_def sample_options_def)
  have o1: "origin (sample_opts\<lparr>origin := None\<rparr>) = None \<or>
      origin (sample_opts\<lparr>origin := None\<rparr>) = Some (OriginString [])"
    by simp
  have o2: "origin (sample_opts\<lparr>origin := Some (OriginString [])\<rparr>) = None \<or>
      origin (sample_opts\<lparr>origin := Some (OriginString [])\<rparr>) = Some (OriginString [])"
    by simp
  show ?thesis
    using connect_timeout_without_origin_fails [OF c e1 o1, of Number_digits pow_rounded 0 1]
      connect_timeout_without_origin_fails [OF c e2 o2, of Number_digits pow_rounded 0 1]
    by blast
qed

section \<open>The concurrency cap\<close>

text \<open>
  C9. A value of \<open>maxSockets\<close> above zero becomes the cap, and a value that is zero or
  below makes the cap 64, both when the subscriber of \<open>maxSocketsSet\<close> runs and when the
  settings arrive at startup.
\<close>

theorem maxSockets_positive_or_default:
  "(0 < r \<longrightarrow> maxConnection (maxSocketsSet (JNum r) s) = JNum r) \<and>
   (r \<le> 0 \<longrightarrow> maxConnection (maxSocketsSet (JNum r) s) = JNum 64) \<and>
   (maxSockets st = JNum r \<and> 0 < r \<longrightarrow> maxConnection (on_settings h st s) = JNum r) \<and>
   (maxSockets st = JNum r \<and> r \<le> 0 \<longrightarrow> maxConnection (on_settings h st s) = JNum 64)"
  by (simp add: maxSocketsSet_def on_settings_def jgt_def Let_def warn_invalid_def
      split: option.split outcome.split)

theorem maxSockets_positive_or_default_witness:
  "maxConnection (maxSocketsSet (JNum 16) sample_plugin) = JNum 16 \<and>
   maxConnection (on_settings sample_host sample_settings sample_plugin) = JNum 16 \<and>
   maxConnection (maxSocketsSet (JNum 0) sample_plugin) = JNum 64 \<and>
   maxConnection (maxSocketsSet (JNum (- 3)) sample_plugin) = JNum 64 \<and>
   maxConnection (on_settings sample_host (sample_settings\<lparr>maxSockets := JNum 0\<rparr>) sample_plugin) =
     JNum 64"
proof -
  have a: "maxSockets sample_settings = JNum 16"
    by (simp add: sample_settings_def)
  have b: "maxSockets (sample_settings\<lparr>maxSockets := JNum 0\<rparr>) = JNum 0"
    by simp
  show ?thesis
    using a b
      maxSockets_positive_or_default [of 16 sample_plugin sample_settings sample_host]
      maxSockets_positive_or_default [of 0 sample_plugin
        "sample_settings\<lparr>maxSockets := JNum 0\<rparr>" sample_host]
      maxSockets_positive_or_default [of "- 3" sample_plugin sample_settings sample_host]
    by simp
qed

lemma find_connections: "find (\<lambda>k. fst k = c) al = None \<longleftrightarrow> map_of al c = None"
  by (induction al) auto

lemma patched_limit:
  assumes "c \<in> fst ` set (symbols p)" and "c = ''connections''"
  shows "connections mc (patchIfPool (PoolD p)) = Some mc"
proof -
  have "map_of (symbols p) ''connections'' \<noteq> None"
    using assms by (simp add: map_of_eq_None_iff)
  then have "find (\<lambda>k. fst k = ''connections'') (symbols p) \<noteq> None"
    by (simp add: find_connections)
  then show ?thesis
    by (auto simp add: patchIfPool_def connections_def update_conv')
qed

text \<open>
  C4. A pool that the factory of the agent has made, from an object with an own symbol
  described \<open>connections\<close>, reads as its connection limit the value that
  \<open>maxConnection\<close> has when the limit is read, in every state of the plugin; after the
  subscriber of \<open>maxSocketsSet\<close> has run, it is the new value.
\<close>

theorem pool_limit_is_live:
  assumes "''connections'' \<in> fst ` set (symbols (new_Pool og))"
  shows "connections (maxConnection s) (factory new_Pool og) = Some (maxConnection s) \<and>
         connections (maxConnection (maxSocketsSet val s)) (factory new_Pool og) =
           Some (if jgt val (JNum 0) then val else JNum 64)"
proof -
  have "connections mc (factory new_Pool og) = Some mc" for mc
    unfolding factory_def using assms by (rule patched_limit) simp
  then show ?thesis
    by (simp add: maxSocketsSet_def)
qed

theorem pool_limit_is_live_witness:
  "connections (maxConnection sample_plugin) (PoolD (pool_running 1)) = None \<and>
   connections (maxConnection sample_plugin) (factory (\<lambda>og. pool_running 1) ''https://a.example'') =
     Some (JNum 64) \<and>
   connections (maxConnection (maxSocketsSet (JNum 8) sample_plugin))
     (factory (\<lambda>og. pool_running 1) ''https://a.example'') = Some (JNum 8)"
proof -
  have h: "''connections'' \<in> fst ` set (symbols (pool_running 1))"
    by (simp add: pool_running_def)
  have "connections (maxConnection sample_plugin) (PoolD (pool_running 1)) = None"
    by (simp add: connections_def pool_running_def)
  then show ?thesis
    using h pool_limit_is_live [where new_Pool = "\<lambda>og. pool_running 1"
        and og = "''https://a.example''" and s = sample_plugin and val = "JNum 8"]
    by (simp add: sample_plugin_def jgt_def)
qed

section \<open>The proxy settings\<close>

text \<open>
  C8. When the string of a \<open>httpProxySet\<close> update is not a valid URL, the controller
  \<open>proxyControl\<close> is as it was, however the subscriber ends; and when \<open>app.setProxy\<close>
  returns, the subscriber returns too, after one warning that names the string.
\<close>

theorem invalid_proxy_url_keeps_controller:
  assumes "URL_new h p = None"
  shows "(case httpProxySet h p s of
            Returns s' \<Rightarrow> proxyControl s' = proxyControl s
          | Throws s' \<Rightarrow> proxyControl s' = proxyControl s) \<and>
         (\<forall>a. app_setProxy h p (app s) = Returns a \<longrightarrow>
            httpProxySet h p s =
              Returns (s\<lparr>app := a,
                 log := log s @ [''Fail to set url as it'' @ [CHR 0x27] @ ''s not a valid url '' @ p]\<rparr>))"
  using assms by (simp add: httpProxySet_def warn_invalid_def split: outcome.split)

theorem invalid_proxy_url_keeps_controller_witness:
  "URL_new sample_host ''not a url'' = None \<and>
   httpProxySet sample_host ''not a url'' sample_plugin =
     Returns (sample_plugin\<lparr>app := [''not a url''],
        log := [''Fail to set url as it'' @ [CHR 0x27] @ ''s not a valid url not a url'']\<rparr>) \<and>
   proxyControl (sample_plugin\<lparr>app := [''not a url''],
        log := [''Fail to set url as it'' @ [CHR 0x27] @ ''s not a valid url not a url'']\<rparr>) =
     \<lparr>proxy_url = Some ''http://127.0.0.1:7890'', proxy_enabled = True\<rparr>"
proof -
  have u: "URL_new sample_host ''not a url'' = None"
    by (simp add: sample_host_def)
  have a: "app_setProxy sample_host ''not a url'' (app sample_plugin) = Returns [''not a url'']"
    by (simp add: sample_host_def sample_plugin_def)
  show ?thesis
    using u a invalid_proxy_url_keeps_controller [OF u, of sample_plugin]
    by (simp add: sample_plugin_def)
qed

section \<open>Idle pools and \<open>destroyPool\<close>\<close>

text \<open>
  C7. The handler of \<open>drain\<close> sets one timer of 60000 ms for the origin and does nothing
  else. When the timer fires, its callback reads the agent as it then is: a pool whose
  \<open>connected\<close>, \<open>pending\<close>, \<open>running\<close>, \<open>queued\<close> and \<open>free\<close> are all zero, and
  another dispatcher whose running count is zero, is closed and deleted from the map; a
  pool with one of the five other than zero, and another dispatcher with a running count
  other than zero, stays, and nothing is closed.
\<close>

theorem drain_check_closes_idle_only:
  "timers (on_drain og s) = timers s @ [(60000, og)] \<and>
   clients (on_drain og s) = clients s \<and> calls (on_drain og s) = calls s \<and>
   (\<forall>p. clients s' og = Some (PoolD p) \<and>
      connected_stat (stats p) = 0 \<and> pending (stats p) = 0 \<and> running (stats p) = 0 \<and>
      queued (stats p) = 0 \<and> free (stats p) = 0 \<longrightarrow>
      drain_check og s' = s'\<lparr>clients := (clients s')(og := None), calls := calls s' @ [Close og]\<rparr>) \<and>
   (clients s' og = Some (OtherD (Some 0)) \<longrightarrow>
      drain_check og s' = s'\<lparr>clients := (clients s')(og := None), calls := calls s' @ [Close og]\<rparr>) \<and>
   (\<forall>p. clients s' og = Some (PoolD p) \<and>
      (connected_stat (stats p) \<noteq> 0 \<or> pending (stats p) \<noteq> 0 \<or> running (stats p) \<noteq> 0 \<or>
       queued (stats p) \<noteq> 0 \<or> free (stats p) \<noteq> 0) \<longrightarrow>
      drain_check og s' = s') \<and>
   (\<forall>n. clients s' og = Some (OtherD (Some n)) \<and> n \<noteq> 0 \<longrightarrow> drain_check og s' = s')"
  by (auto simp add: on_drain_def drain_check_def close_and_delete_def no_connection_def)

theorem drain_check_closes_idle_only_witness:
  "timers (on_drain ''https://a.example'' (agent_with (PoolD (pool_running 0)))) =
     [(60000, ''https://a.example'')] \<and>
   drain_check ''https://a.example'' (agent_with (PoolD (pool_running 0))) =
     (agent_with (PoolD (pool_running 0)))
       \<lparr>clients := (clients (agent_with (PoolD (pool_running 0))))(''https://a.example'' := None),
        calls := [Close ''https://a.example'']\<rparr> \<and>
   drain_check ''https://a.example'' (agent_with (OtherD (Some 0))) =
     (agent_with (OtherD (Some 0)))
       \<lparr>clients := (clients (agent_with (OtherD (Some 0))))(''https://a.example'' := None),
        calls := [Close ''https://a.example'']\<rparr> \<and>
   drain_check ''https://a.example'' (agent_with (PoolD (pool_running 1))) =
     agent_with (PoolD (pool_running 1)) \<and>
   drain_check ''https://a.example'' (agent_with (OtherD (Some 2))) =
     agent_with (OtherD (Some 2))"
proof -
  have c: "clients (agent_with d) ''https://a.example'' = Some d" for d
    by (simp add: agent_with_def)
  have k: "calls (agent_with d) = []" "timers (agent_with d) = []" for d
    by (simp_all add: agent_with_def)
  show ?thesis
    using
      drain_check_closes_idle_only [of "''https://a.example''" "agent_with (PoolD (pool_running 0))"
        "agent_with (PoolD (pool_running 0))"]
      drain_check_closes_idle_only [of "''https://a.example''" "agent_with (PoolD (pool_running 0))"
        "agent_with (OtherD (Some 0))"]
      drain_check_closes_idle_only [of "''https://a.example''" "agent_with (PoolD (pool_running 0))"
        "agent_with (PoolD (pool_running 1))"]
      drain_check_closes_idle_only [of "''https://a.example''" "agent_with (PoolD (pool_running 0))"
        "agent_with (OtherD (Some 2))"]
    by (simp add: c k pool_running_def)
qed

text \<open>
  Where the close is fulfilled before the deadline, and where it is not rejected before the
  deadline and the destroy is fulfilled, \<open>destroyPool\<close> is fulfilled with the entry of the
  origin deleted and every other entry as it was; so it is without a pool for the origin.
\<close>

lemma destroyPool_deletes_unless_rejected:
  assumes "clients s og = None \<or> (\<exists>t. closing = Fulfils t \<and> t < 500) \<or>
           (\<not> (\<exists>t. closing = Rejects t \<and> t < 500) \<and> (\<exists>t. destroying = Fulfils t))"
  shows "\<exists>s'. destroyPool closing destroying og s = Resolved s' \<and> clients s' og = None \<and>
           (\<forall>k. k \<noteq> og \<longrightarrow> clients s' k = clients s k)"
  using assms
  by (cases closing; cases destroying; cases "clients s og")
     (auto simp add: destroyPool_def force_destroy_def Let_def)

text \<open>
  C2. \<open>destroyPool\<close> is to delete the entry of the origin however the close ends, and
  \<open>clients.delete(origin)\<close> stands after the race without a condition. The code misses
  the case of a close that fails: when the promise of \<open>close\<close> is rejected after 100 ms,
  before the deadline, the awaited race is rejected, the call is rejected there, and the
  entry is still in the map. The callback of the drain timer deletes the entry whatever
  becomes of the close.
\<close>

theorem destroyPool_close_rejected_keeps_entry:
  "destroyPool (Rejects 100) (Fulfils 0) ''https://a.example'' (agent_with (PoolD (pool_running 1))) =
     Rejected ((agent_with (PoolD (pool_running 1)))\<lparr>calls := [Close ''https://a.example'']\<rparr>) \<and>
   clients ((agent_with (PoolD (pool_running 1)))\<lparr>calls := [Close ''https://a.example'']\<rparr>)
     ''https://a.example'' = Some (PoolD (pool_running 1))"
  by (simp add: destroyPool_def agent_with_def)

end
